theory Spec2Isabelle
  imports Main
begin

section \<open>Parcels\<close>

text \<open>
  The Go struct \<^verbatim>\<open>Parcel\<close>. \<^verbatim>\<open>Number\<close> and \<^verbatim>\<open>Client\<close> are \<^verbatim>\<open>int64\<close> in the source; the
  Go code does no arithmetic on them (it only passes them to and from the database), so
  they are modelled as \<open>int\<close>. The same holds for the \<^verbatim>\<open>int\<close> arguments of the methods.
\<close>

record Parcel =
  Number :: int
  Client :: int
  Status :: string
  Address :: string
  CreatedAt :: string

text \<open>The zero value \<^verbatim>\<open>Parcel{}\<close>.\<close>

definition zeroParcel :: Parcel where
  "zeroParcel = \<lparr>Number = 0, Client = 0, Status = [], Address = [], CreatedAt = []\<rparr>"

definition ParcelStatusRegistered :: string where
  "ParcelStatusRegistered = ''registered''"

definition ParcelStatusSent :: string where
  "ParcelStatusSent = ''sent''"

definition ParcelStatusDelivered :: string where
  "ParcelStatusDelivered = ''delivered''"

section \<open>The relational backend\<close>

text \<open>
  Every error value the code can hold: the one \<^verbatim>\<open>Add\<close> builds itself with
  \<^verbatim>\<open>errors.New("gotten pointer is equal to nil")\<close>, the sentinel \<^verbatim>\<open>sql.ErrNoRows\<close> of
  \<^verbatim>\<open>Row.Scan\<close>, and the failures of the backend.
\<close>

datatype error =
    ErrNilPointer
  | ErrNoRows
  | ErrConnection
  | ErrNoSuchTable string
  | ErrNoSuchColumn string
  | ErrBind
  | ErrType string
  | ErrReadOnlyColumn string
  | ErrLastInsertId
  | ErrScan

datatype sqlval = IntV int | TextV string

text \<open>
  The state behind \<^verbatim>\<open>*sql.DB\<close>: the rows of the table in insertion order, the last
  identifier the table generated, whether the connection is unusable, and whether the
  driver supports \<^verbatim>\<open>Result.LastInsertId\<close>.
\<close>

record db =
  rows :: "Parcel list"
  lastid :: int
  down :: bool
  lastInsertIdSupported :: bool

text \<open>
  Modelled from the spec: the schema of the database, which no file under src/ creates.
  Section 6 of the specification gives one table named \<^verbatim>\<open>parcel\<close> with the columns
  \<^verbatim>\<open>number\<close> (generated identifier, primary key), \<^verbatim>\<open>client\<close>, \<^verbatim>\<open>status\<close>, \<^verbatim>\<open>address\<close> and
  \<^verbatim>\<open>created_at\<close>. A statement that names any other table or column is rejected by the
  backend when it is prepared, whatever the rows are.
\<close>

definition table :: "db \<Rightarrow> string \<Rightarrow> error + Parcel list" where
  "table s t = (if t = ''parcel'' then Inr (rows s) else Inl (ErrNoSuchTable t))"

definition column :: "string \<Rightarrow> (Parcel \<Rightarrow> sqlval) option" where
  "column c =
     (if c = ''number'' then Some (\<lambda>r. IntV (Number r))
      else if c = ''client'' then Some (\<lambda>r. IntV (Client r))
      else if c = ''status'' then Some (\<lambda>r. TextV (Status r))
      else if c = ''address'' then Some (\<lambda>r. TextV (Address r))
      else if c = ''created_at'' then Some (\<lambda>r. TextV (CreatedAt r))
      else None)"

text \<open>
  Storing a value in a column of a row. The columns are typed as section 3 of the
  specification types the fields; the generated key is never written by a statement of
  the source, and the model rejects a statement that would.
\<close>

definition assign :: "string \<Rightarrow> sqlval \<Rightarrow> Parcel \<Rightarrow> error + Parcel" where
  "assign c v r =
     (if c = ''number'' then Inl (ErrReadOnlyColumn c)
      else if c = ''client'' then
        (case v of IntV n \<Rightarrow> Inr (r\<lparr>Client := n\<rparr>) | TextV _ \<Rightarrow> Inl (ErrType c))
      else if c = ''status'' then
        (case v of TextV t \<Rightarrow> Inr (r\<lparr>Status := t\<rparr>) | IntV _ \<Rightarrow> Inl (ErrType c))
      else if c = ''address'' then
        (case v of TextV t \<Rightarrow> Inr (r\<lparr>Address := t\<rparr>) | IntV _ \<Rightarrow> Inl (ErrType c))
      else if c = ''created_at'' then
        (case v of TextV t \<Rightarrow> Inr (r\<lparr>CreatedAt := t\<rparr>) | IntV _ \<Rightarrow> Inl (ErrType c))
      else Inl (ErrNoSuchColumn c))"

subsection \<open>Statements\<close>

text \<open>
  The abstract syntax of the SQL the source sends. In an expression a bare identifier is
  a column reference (\<open>Col\<close>) and the \<open>i\<close>-th \<^verbatim>\<open>?\<close> of the statement, counted from 0, is
  \<open>Arg i\<close>. The source contains no string or number literal in any statement.
\<close>

datatype expr = Col string | Arg nat

datatype cond = Eq expr expr | And cond cond

datatype stmt =
    Insert string "string list" "expr list"
  | Update string string expr cond
  | DeleteFrom string cond

datatype query = Select "string list" string cond

text \<open>Name resolution, done when a statement is prepared.\<close>

fun expr_check :: "nat \<Rightarrow> expr \<Rightarrow> error option" where
  "expr_check n (Col c) = (case column c of None \<Rightarrow> Some (ErrNoSuchColumn c) | Some _ \<Rightarrow> None)"
| "expr_check n (Arg i) = (if i < n then None else Some ErrBind)"

fun cond_check :: "nat \<Rightarrow> cond \<Rightarrow> error option" where
  "cond_check n (Eq a b) =
     (case expr_check n a of Some e \<Rightarrow> Some e | None \<Rightarrow> expr_check n b)"
| "cond_check n (And p q) =
     (case cond_check n p of Some e \<Rightarrow> Some e | None \<Rightarrow> cond_check n q)"

fun cols_check :: "string list \<Rightarrow> error option" where
  "cols_check [] = None"
| "cols_check (c # cs) =
     (case column c of None \<Rightarrow> Some (ErrNoSuchColumn c) | Some _ \<Rightarrow> cols_check cs)"

text \<open>Evaluation on one row.\<close>

fun expr_val :: "sqlval list \<Rightarrow> Parcel \<Rightarrow> expr \<Rightarrow> sqlval option" where
  "expr_val args r (Col c) = (case column c of None \<Rightarrow> None | Some f \<Rightarrow> Some (f r))"
| "expr_val args r (Arg i) = (if i < length args then Some (args ! i) else None)"

fun holds :: "sqlval list \<Rightarrow> Parcel \<Rightarrow> cond \<Rightarrow> bool" where
  "holds args r (Eq a b) =
     (case expr_val args r a of
        None \<Rightarrow> False
      | Some x \<Rightarrow> (case expr_val args r b of None \<Rightarrow> False | Some y \<Rightarrow> x = y))"
| "holds args r (And p q) = (holds args r p \<and> holds args r q)"

fun project :: "string list \<Rightarrow> Parcel \<Rightarrow> sqlval list" where
  "project [] r = []"
| "project (c # cs) r =
     (case column c of None \<Rightarrow> project cs r | Some f \<Rightarrow> f r # project cs r)"

text \<open>
  \<^verbatim>\<open>UPDATE t SET c = e WHERE w\<close> on the rows: every row that satisfies \<open>w\<close> gets the value
  of \<open>e\<close>; the first failure aborts the whole statement.
\<close>

fun update_rows :: "string \<Rightarrow> expr \<Rightarrow> cond \<Rightarrow> sqlval list \<Rightarrow> Parcel list \<Rightarrow> error + Parcel list" where
  "update_rows c e w args [] = Inr []"
| "update_rows c e w args (r # rs) =
     (if holds args r w then
        (case expr_val args r e of
           None \<Rightarrow> Inl ErrBind
         | Some v \<Rightarrow>
            (case assign c v r of
               Inl err \<Rightarrow> Inl err
             | Inr r' \<Rightarrow>
                (case update_rows c e w args rs of
                   Inl err \<Rightarrow> Inl err
                 | Inr rs' \<Rightarrow> Inr (r' # rs'))))
      else
        (case update_rows c e w args rs of
           Inl err \<Rightarrow> Inl err
         | Inr rs' \<Rightarrow> Inr (r # rs')))"

text \<open>
  \<^verbatim>\<open>INSERT INTO t (cs) VALUES (es)\<close>: the values are stored one column at a time in a row
  that starts with the generated key and the zero value in every other column.
\<close>

fun insert_row :: "string list \<Rightarrow> expr list \<Rightarrow> sqlval list \<Rightarrow> Parcel \<Rightarrow> error + Parcel" where
  "insert_row [] [] args r = Inr r"
| "insert_row (c # cs) (e # es) args r =
     (case expr_val args r e of
        None \<Rightarrow> Inl ErrBind
      | Some v \<Rightarrow>
         (case assign c v r of
            Inl err \<Rightarrow> Inl err
          | Inr r' \<Rightarrow> insert_row cs es args r'))"
| "insert_row _ _ args r = Inl ErrBind"

fun exprs_check :: "nat \<Rightarrow> expr list \<Rightarrow> error option" where
  "exprs_check n [] = None"
| "exprs_check n (e # es) =
     (case expr_check n e of Some err \<Rightarrow> Some err | None \<Rightarrow> exprs_check n es)"

text \<open>What \<^verbatim>\<open>sql.Result\<close> holds after \<^verbatim>\<open>Exec\<close>.\<close>

record result =
  lastInsertId :: "error + int"
  rowsAffected :: nat

text \<open>
  \<^verbatim>\<open>db.Exec\<close>. A connection that is down fails every statement; otherwise the statement
  is prepared (table, then column names and placeholders) and run. A failed statement
  leaves the database as it was.
\<close>

fun Exec :: "db \<Rightarrow> stmt \<Rightarrow> sqlval list \<Rightarrow> error + (db \<times> result)" where
  "Exec s (Insert t cs es) args =
     (if down s then Inl ErrConnection
      else case table s t of
        Inl err \<Rightarrow> Inl err
      | Inr rs \<Rightarrow>
         (case cols_check cs of
            Some err \<Rightarrow> Inl err
          | None \<Rightarrow>
             (case exprs_check (length args) es of
                Some err \<Rightarrow> Inl err
              | None \<Rightarrow>
                 (case insert_row cs es args (zeroParcel\<lparr>Number := lastid s + 1\<rparr>) of
                    Inl err \<Rightarrow> Inl err
                  | Inr r \<Rightarrow>
                     Inr (s\<lparr>rows := rs @ [r], lastid := lastid s + 1\<rparr>,
                          \<lparr>lastInsertId =
                             (if lastInsertIdSupported s then Inr (lastid s + 1)
                              else Inl ErrLastInsertId),
                           rowsAffected = 1\<rparr>)))))"
| "Exec s (Update t c e w) args =
     (if down s then Inl ErrConnection
      else case table s t of
        Inl err \<Rightarrow> Inl err
      | Inr rs \<Rightarrow>
         (case cols_check [c] of
            Some err \<Rightarrow> Inl err
          | None \<Rightarrow>
             (case expr_check (length args) e of
                Some err \<Rightarrow> Inl err
              | None \<Rightarrow>
                 (case cond_check (length args) w of
                    Some err \<Rightarrow> Inl err
                  | None \<Rightarrow>
                     (case update_rows c e w args rs of
                        Inl err \<Rightarrow> Inl err
                      | Inr rs' \<Rightarrow>
                         Inr (s\<lparr>rows := rs'\<rparr>,
                              \<lparr>lastInsertId =
                                 (if lastInsertIdSupported s then Inr (lastid s)
                                  else Inl ErrLastInsertId),
                               rowsAffected = length (filter (\<lambda>r. holds args r w) rs)\<rparr>))))))"
| "Exec s (DeleteFrom t w) args =
     (if down s then Inl ErrConnection
      else case table s t of
        Inl err \<Rightarrow> Inl err
      | Inr rs \<Rightarrow>
         (case cond_check (length args) w of
            Some err \<Rightarrow> Inl err
          | None \<Rightarrow>
             Inr (s\<lparr>rows := filter (\<lambda>r. \<not> holds args r w) rs\<rparr>,
                  \<lparr>lastInsertId =
                     (if lastInsertIdSupported s then Inr (lastid s)
                      else Inl ErrLastInsertId),
                   rowsAffected = length (filter (\<lambda>r. holds args r w) rs)\<rparr>)))"

text \<open>\<^verbatim>\<open>db.Query\<close>: the selected columns of the rows that satisfy the condition.\<close>

fun Query :: "db \<Rightarrow> query \<Rightarrow> sqlval list \<Rightarrow> error + sqlval list list" where
  "Query s (Select cs t w) args =
     (if down s then Inl ErrConnection
      else case table s t of
        Inl err \<Rightarrow> Inl err
      | Inr rs \<Rightarrow>
         (case cols_check cs of
            Some err \<Rightarrow> Inl err
          | None \<Rightarrow>
             (case cond_check (length args) w of
                Some err \<Rightarrow> Inl err
              | None \<Rightarrow> Inr (map (project cs) (filter (\<lambda>r. holds args r w) rs)))))"

text \<open>
  \<^verbatim>\<open>Scan\<close> of one result row into the five fields of a \<^verbatim>\<open>Parcel\<close>, in the order
  \<^verbatim>\<open>Number, Client, Status, Address, CreatedAt\<close>. The conversions Go attempts between an
  integer and a text value are not modelled: such a row is a scan error.
\<close>

fun scanParcel :: "sqlval list \<Rightarrow> error + Parcel" where
  "scanParcel [IntV n, IntV c, TextV st, TextV a, TextV t] =
     Inr \<lparr>Number = n, Client = c, Status = st, Address = a, CreatedAt = t\<rparr>"
| "scanParcel _ = Inl ErrScan"

text \<open>
  \<^verbatim>\<open>db.QueryRow(...).Scan(...)\<close>: the error of the query if it failed, \<^verbatim>\<open>sql.ErrNoRows\<close>
  on an empty result, the first row otherwise.
\<close>

definition QueryRow_Scan :: "db \<Rightarrow> query \<Rightarrow> sqlval list \<Rightarrow> error + Parcel" where
  "QueryRow_Scan s q args =
     (case Query s q args of
        Inl err \<Rightarrow> Inl err
      | Inr [] \<Rightarrow> Inl ErrNoRows
      | Inr (r # _) \<Rightarrow> scanParcel r)"

section \<open>ParcelStore\<close>

text \<open>
  \<^verbatim>\<open>INSERT INTO parcel (client, status, address, created_at) VALUES (?, ?, ?, ?)\<close>
\<close>

definition sql_Add :: stmt where
  "sql_Add =
     Insert ''parcel'' [''client'', ''status'', ''address'', ''created_at'']
       [Arg 0, Arg 1, Arg 2, Arg 3]"

text \<open>
  \<^verbatim>\<open>SELECT number, client, status, address, created_at FROM parcel WHERE id = ?\<close>
\<close>

definition sql_Get :: query where
  "sql_Get =
     Select [''number'', ''client'', ''status'', ''address'', ''created_at''] ''parcel''
       (Eq (Col ''id'') (Arg 0))"

text \<open>
  \<^verbatim>\<open>SELECT number, client, status, address, created_at FROM percel WHERE client = ?\<close>
\<close>

definition sql_GetByClient :: query where
  "sql_GetByClient =
     Select [''number'', ''client'', ''status'', ''address'', ''created_at''] ''percel''
       (Eq (Col ''client'') (Arg 0))"

text \<open>\<^verbatim>\<open>UPDATE parcel SET status = ? WHERE number = ?\<close>\<close>

definition sql_SetStatus :: stmt where
  "sql_SetStatus = Update ''parcel'' ''status'' (Arg 0) (Eq (Col ''number'') (Arg 1))"

text \<open>\<^verbatim>\<open>UPDATE parcel SET address = ? WHERE number = ?\<close>\<close>

definition sql_SetAddress :: stmt where
  "sql_SetAddress = Update ''parcel'' ''address'' (Arg 0) (Eq (Col ''number'') (Arg 1))"

text \<open>\<^verbatim>\<open>DELETE FROM parcel WHERE number = ? AND status = registered\<close>\<close>

definition sql_Delete :: stmt where
  "sql_Delete =
     DeleteFrom ''parcel''
       (And (Eq (Col ''number'') (Arg 0)) (Eq (Col ''status'') (Col ''registered'')))"

text \<open>
  \<^verbatim>\<open>func (s ParcelStore) Add(p *Parcel) error\<close>. The pointer is an \<open>option\<close> (\<open>None\<close> is
  \<^verbatim>\<open>nil\<close>); the function returns the database, the record behind the pointer after the
  call, and the error (\<open>None\<close> is \<^verbatim>\<open>nil\<close>).
\<close>

definition ParcelStore_Add :: "db \<Rightarrow> Parcel option \<Rightarrow> db \<times> Parcel option \<times> error option" where
  "ParcelStore_Add s p =
     (case p of
        None \<Rightarrow> (s, None, Some ErrNilPointer)
      | Some q \<Rightarrow>
         (case Exec s sql_Add
                 [IntV (Client q), TextV (Status q), TextV (Address q), TextV (CreatedAt q)] of
            Inl err \<Rightarrow> (s, Some q, Some err)
          | Inr (s', res) \<Rightarrow>
             (case lastInsertId res of
                Inl err \<Rightarrow> (s', Some q, Some err)
              | Inr lastParcelID \<Rightarrow> (s', Some (q\<lparr>Number := lastParcelID\<rparr>), None))))"

text \<open>\<^verbatim>\<open>func (s ParcelStore) Get(number int) (Parcel, error)\<close>\<close>

definition ParcelStore_Get :: "db \<Rightarrow> int \<Rightarrow> Parcel \<times> error option" where
  "ParcelStore_Get s number =
     (case QueryRow_Scan s sql_Get [IntV number] of
        Inl err \<Rightarrow> (if err = ErrNoRows then (zeroParcel, None) else (zeroParcel, Some err))
      | Inr gottenParcel \<Rightarrow> (gottenParcel, None))"

text \<open>
  The loop of \<^verbatim>\<open>GetByClient\<close> over the result rows: each row is scanned and appended; a
  scan error ends the loop.
\<close>

fun scanRows :: "sqlval list list \<Rightarrow> Parcel list \<Rightarrow> error + Parcel list" where
  "scanRows [] parcels = Inr parcels"
| "scanRows (r # rs) parcels =
     (case scanParcel r of
        Inl err \<Rightarrow> Inl err
      | Inr newParcel \<Rightarrow> scanRows rs (parcels @ [newParcel]))"

text \<open>
  \<^verbatim>\<open>func (s ParcelStore) GetByClient(client int) ([]Parcel, error)\<close>. The \<^verbatim>\<open>nil\<close> slice and
  the empty slice are both the empty list. The result set is read whole by \<open>Query\<close>, so
  \<^verbatim>\<open>rows.Err()\<close> is \<^verbatim>\<open>nil\<close> after the loop.
\<close>

definition ParcelStore_GetByClient :: "db \<Rightarrow> int \<Rightarrow> Parcel list \<times> error option" where
  "ParcelStore_GetByClient s client =
     (case Query s sql_GetByClient [IntV client] of
        Inl err \<Rightarrow> ([], Some err)
      | Inr rs \<Rightarrow>
         (case scanRows rs [] of
            Inl err \<Rightarrow> ([], Some err)
          | Inr parcels \<Rightarrow> (parcels, None)))"

text \<open>
  The three mutations return only the error of \<^verbatim>\<open>Exec\<close>; the model returns the database
  after the call with it.
\<close>

definition exec_err :: "db \<Rightarrow> stmt \<Rightarrow> sqlval list \<Rightarrow> db \<times> error option" where
  "exec_err s st args =
     (case Exec s st args of Inl err \<Rightarrow> (s, Some err) | Inr (s', _) \<Rightarrow> (s', None))"

definition ParcelStore_SetStatus :: "db \<Rightarrow> int \<Rightarrow> string \<Rightarrow> db \<times> error option" where
  "ParcelStore_SetStatus s number status = exec_err s sql_SetStatus [TextV status, IntV number]"

definition ParcelStore_SetAddress :: "db \<Rightarrow> int \<Rightarrow> string \<Rightarrow> db \<times> error option" where
  "ParcelStore_SetAddress s number address =
     exec_err s sql_SetAddress [TextV address, IntV number]"

definition ParcelStore_Delete :: "db \<Rightarrow> int \<Rightarrow> db \<times> error option" where
  "ParcelStore_Delete s number = exec_err s sql_Delete [IntV number]"

section \<open>ParcelService\<close>

text \<open>
  \<^verbatim>\<open>func (s ParcelService) Register(client int64, address string) (Parcel, error)\<close>. The
  formatted \<^verbatim>\<open>time.Now()\<close> is the argument \<open>now\<close>; what is printed is not modelled.
  After the call of \<^verbatim>\<open>Add\<close> the variable \<^verbatim>\<open>parcel\<close> holds what the call left behind the
  pointer \<^verbatim>\<open>&parcel\<close>.
\<close>

definition ParcelService_Register :: "db \<Rightarrow> string \<Rightarrow> int \<Rightarrow> string \<Rightarrow> db \<times> Parcel \<times> error option" where
  "ParcelService_Register s now client address =
     (let parcel = \<lparr>Number = 0, Client = client, Status = ParcelStatusRegistered,
                     Address = address, CreatedAt = now\<rparr>
      in case ParcelStore_Add s (Some parcel) of
           (s', p', Some err) \<Rightarrow> (s', zeroParcel, Some err)
         | (s', p', None) \<Rightarrow>
             (s', (case p' of Some parcel' \<Rightarrow> parcel' | None \<Rightarrow> parcel), None))"

text \<open>
  \<^verbatim>\<open>func (s ParcelService) NextStatus(number int) error\<close>. The \<^verbatim>\<open>switch\<close> has no default
  case: on any other status \<^verbatim>\<open>nextStatus\<close> keeps its zero value, the empty string, and
  \<^verbatim>\<open>SetStatus\<close> is called with it.
\<close>

definition ParcelService_NextStatus :: "db \<Rightarrow> int \<Rightarrow> db \<times> error option" where
  "ParcelService_NextStatus s number =
     (case ParcelStore_Get s number of
        (parcel, Some err) \<Rightarrow> (s, Some err)
      | (parcel, None) \<Rightarrow>
         (if Status parcel = ParcelStatusRegistered then
            ParcelStore_SetStatus s number ParcelStatusSent
          else if Status parcel = ParcelStatusSent then
            ParcelStore_SetStatus s number ParcelStatusDelivered
          else if Status parcel = ParcelStatusDelivered then (s, None)
          else ParcelStore_SetStatus s number []))"

definition ParcelService_ChangeAddress :: "db \<Rightarrow> int \<Rightarrow> string \<Rightarrow> db \<times> error option" where
  "ParcelService_ChangeAddress s number address = ParcelStore_SetAddress s number address"

definition ParcelService_Delete :: "db \<Rightarrow> int \<Rightarrow> db \<times> error option" where
  "ParcelService_Delete s number = ParcelStore_Delete s number"

section \<open>Sequences of service calls\<close>

text \<open>
  One call of a method of \<^verbatim>\<open>ParcelService\<close> that writes to the store. \<open>Register\<close> carries
  the time the call reads from the clock.
\<close>

datatype call =
    Register string int string
  | NextStatus int
  | ChangeAddress int string
  | Delete int

fun perform :: "db \<Rightarrow> call \<Rightarrow> db" where
  "perform s (Register now client address) = fst (ParcelService_Register s now client address)"
| "perform s (NextStatus number) = fst (ParcelService_NextStatus s number)"
| "perform s (ChangeAddress number address) = fst (ParcelService_ChangeAddress s number address)"
| "perform s (Delete number) = fst (ParcelService_Delete s number)"

text \<open>
  The connection may be up for one call and down for the next: a step is a call together
  with the state of the connection while it runs.
\<close>

definition step :: "db \<Rightarrow> bool \<times> call \<Rightarrow> db" where
  "step s c = perform (s\<lparr>down := fst c\<rparr>) (snd c)"

definition run :: "db \<Rightarrow> (bool \<times> call) list \<Rightarrow> db" where
  "run s cs = foldl step s cs"

definition empty_store :: "bool \<Rightarrow> db" where
  "empty_store supported =
     \<lparr>rows = [], lastid = 0, down = False, lastInsertIdSupported = supported\<rparr>"

text \<open>The three statuses, and one move along registered, sent, delivered (or none).\<close>

definition valid_status :: "string \<Rightarrow> bool" where
  "valid_status st =
     (st = ParcelStatusRegistered \<or> st = ParcelStatusSent \<or> st = ParcelStatusDelivered)"

definition forward :: "string \<Rightarrow> string \<Rightarrow> bool" where
  "forward a b =
     (b = a \<or> (a = ParcelStatusRegistered \<and> b = ParcelStatusSent)
            \<or> (a = ParcelStatusSent \<and> b = ParcelStatusDelivered))"

text \<open>A store that holds one parcel, number 1 of client 7, in the given status.\<close>

definition one_parcel :: "string \<Rightarrow> string \<Rightarrow> Parcel" where
  "one_parcel st a =
     \<lparr>Number = 1, Client = 7, Status = st, Address = a, CreatedAt = ''2024-05-01T10:00:00Z''\<rparr>"

definition one_parcel_store :: "string \<Rightarrow> string \<Rightarrow> db" where
  "one_parcel_store st a =
     \<lparr>rows = [one_parcel st a], lastid = 1, down = False, lastInsertIdSupported = True\<rparr>"

text \<open>Every stored parcel is still in the status \<^verbatim>\<open>registered\<close>.\<close>

definition all_registered :: "db \<Rightarrow> bool" where
  "all_registered s = list_all (\<lambda>p. Status p = ParcelStatusRegistered) (rows s)"

section \<open>What the statements of the source do\<close>

lemma column_simps:
  "column ''number'' = Some (\<lambda>r. IntV (Number r))"
  "column ''client'' = Some (\<lambda>r. IntV (Client r))"
  "column ''status'' = Some (\<lambda>r. TextV (Status r))"
  "column ''address'' = Some (\<lambda>r. TextV (Address r))"
  "column ''created_at'' = Some (\<lambda>r. TextV (CreatedAt r))"
  "column ''id'' = None"
  "column ''registered'' = None"
  by (simp_all add: column_def)

lemma table_simps:
  "table s ''parcel'' = Inr (rows s)"
  "table s ''percel'' = Inl (ErrNoSuchTable ''percel'')"
  by (simp_all add: table_def)

text \<open>The query of \<^verbatim>\<open>Get\<close> names a column the table does not have.\<close>

lemma Query_sql_Get:
  "Query s sql_Get [IntV number] =
     Inl (if down s then ErrConnection else ErrNoSuchColumn ''id'')"
  by (simp add: sql_Get_def table_simps column_simps)

lemma Get_eq:
  "ParcelStore_Get s number =
     (zeroParcel, Some (if down s then ErrConnection else ErrNoSuchColumn ''id''))"
  by (simp add: ParcelStore_Get_def QueryRow_Scan_def Query_sql_Get)

lemma NextStatus_eq:
  "ParcelService_NextStatus s number =
     (s, Some (if down s then ErrConnection else ErrNoSuchColumn ''id''))"
  by (simp add: ParcelService_NextStatus_def Get_eq)

text \<open>
  In the statement of \<^verbatim>\<open>Delete\<close> the word \<^verbatim>\<open>registered\<close> is not quoted: it is a column
  reference, and the table has no such column.
\<close>

lemma Exec_sql_Delete:
  "Exec s sql_Delete [IntV number] =
     Inl (if down s then ErrConnection else ErrNoSuchColumn ''registered'')"
  by (simp add: sql_Delete_def table_simps column_simps)

lemma Delete_eq:
  "ParcelStore_Delete s number =
     (s, Some (if down s then ErrConnection else ErrNoSuchColumn ''registered''))"
  by (simp add: ParcelStore_Delete_def exec_err_def Exec_sql_Delete)

text \<open>The query of \<^verbatim>\<open>GetByClient\<close> names a table the database does not have.\<close>

lemma Query_sql_GetByClient:
  "Query s sql_GetByClient [IntV client] =
     Inl (if down s then ErrConnection else ErrNoSuchTable ''percel'')"
  by (simp add: sql_GetByClient_def table_simps)

lemma GetByClient_eq:
  "ParcelStore_GetByClient s client =
     ([], Some (if down s then ErrConnection else ErrNoSuchTable ''percel''))"
  by (simp add: ParcelStore_GetByClient_def Query_sql_GetByClient)

text \<open>
  The update of \<^verbatim>\<open>SetAddress\<close> rewrites the address of every row with the given number,
  whatever its status.
\<close>

lemma update_rows_address:
  "update_rows ''address'' (Arg 0) (Eq (Col ''number'') (Arg (Suc 0))) [TextV a, IntV n] rs =
     Inr (map (\<lambda>r. if Number r = n then r\<lparr>Address := a\<rparr> else r) rs)"
  by (induction rs) (simp_all add: column_simps assign_def)

lemma SetAddress_eq:
  "ParcelStore_SetAddress s number address =
     (if down s then (s, Some ErrConnection)
      else (s\<lparr>rows := map (\<lambda>r. if Number r = number then r\<lparr>Address := address\<rparr> else r)
                         (rows s)\<rparr>,
            None))"
  by (simp add: ParcelStore_SetAddress_def exec_err_def sql_SetAddress_def table_simps
        column_simps update_rows_address)

text \<open>The insert of \<^verbatim>\<open>Add\<close> appends one row that carries the next identifier.\<close>

lemma Exec_sql_Add:
  "Exec s sql_Add [IntV c, TextV st, TextV a, TextV t] =
     (if down s then Inl ErrConnection
      else Inr (s\<lparr>rows := rows s @ [\<lparr>Number = lastid s + 1, Client = c, Status = st,
                                      Address = a, CreatedAt = t\<rparr>],
                  lastid := lastid s + 1\<rparr>,
                \<lparr>lastInsertId =
                   (if lastInsertIdSupported s then Inr (lastid s + 1) else Inl ErrLastInsertId),
                 rowsAffected = 1\<rparr>))"
  by (simp add: sql_Add_def table_simps column_simps assign_def zeroParcel_def)

lemma Add_Some_eq:
  "ParcelStore_Add s (Some q) =
     (if down s then (s, Some q, Some ErrConnection)
      else if lastInsertIdSupported s then
        (s\<lparr>rows := rows s @ [q\<lparr>Number := lastid s + 1\<rparr>], lastid := lastid s + 1\<rparr>,
         Some (q\<lparr>Number := lastid s + 1\<rparr>), None)
      else
        (s\<lparr>rows := rows s @ [q\<lparr>Number := lastid s + 1\<rparr>], lastid := lastid s + 1\<rparr>,
         Some q, Some ErrLastInsertId))"
  by (cases q) (simp add: ParcelStore_Add_def Exec_sql_Add)

lemma Register_eq:
  "ParcelService_Register s now client address =
     (if down s then (s, zeroParcel, Some ErrConnection)
      else if lastInsertIdSupported s then
        (s\<lparr>rows := rows s @ [\<lparr>Number = lastid s + 1, Client = client,
                                 Status = ParcelStatusRegistered, Address = address,
                                 CreatedAt = now\<rparr>],
            lastid := lastid s + 1\<rparr>,
         \<lparr>Number = lastid s + 1, Client = client, Status = ParcelStatusRegistered,
            Address = address, CreatedAt = now\<rparr>, None)
      else
        (s\<lparr>rows := rows s @ [\<lparr>Number = lastid s + 1, Client = client,
                                 Status = ParcelStatusRegistered, Address = address,
                                 CreatedAt = now\<rparr>],
            lastid := lastid s + 1\<rparr>,
         zeroParcel, Some ErrLastInsertId))"
  by (simp add: ParcelService_Register_def Add_Some_eq)

section \<open>The address and delete guards\<close>

text \<open>
  Claim C1: on a stored parcel in the status \<^verbatim>\<open>sent\<close> or \<^verbatim>\<open>delivered\<close>, \<^verbatim>\<open>ChangeAddress\<close>
  leaves the address as it is. The update of \<^verbatim>\<open>SetAddress\<close> has no condition on the
  status: on the store that holds parcel 1 in the status \<^verbatim>\<open>sent\<close> with the address
  \<^verbatim>\<open>A\<close>, \<^verbatim>\<open>ChangeAddress(1, "B")\<close> returns no error and the stored address is \<^verbatim>\<open>B\<close>.
\<close>

theorem ChangeAddress_rewrites_sent_parcel:
  "ParcelService_ChangeAddress (one_parcel_store ParcelStatusSent ''A'') 1 ''B'' =
     (one_parcel_store ParcelStatusSent ''B'', None)"
  by (simp add: ParcelService_ChangeAddress_def SetAddress_eq one_parcel_store_def
        one_parcel_def)

text \<open>
  Claim C2: \<^verbatim>\<open>Delete\<close> removes a stored parcel in the status \<^verbatim>\<open>registered\<close> and returns
  no error. The statement of \<^verbatim>\<open>Delete\<close> compares the status with a column named
  \<^verbatim>\<open>registered\<close>: on the store that holds parcel 1 in the status \<^verbatim>\<open>registered\<close>,
  \<^verbatim>\<open>Delete(1)\<close> returns the error of the backend and the parcel stays.
\<close>

theorem Delete_keeps_registered_parcel:
  "ParcelService_Delete (one_parcel_store ParcelStatusRegistered ''A'') 1 =
     (one_parcel_store ParcelStatusRegistered ''A'', Some (ErrNoSuchColumn ''registered''))"
  by (simp add: ParcelService_Delete_def Delete_eq one_parcel_store_def)

section \<open>Reading\<close>

text \<open>
  Claim C3: \<^verbatim>\<open>GetByClient\<close> returns the stored parcels of the client, read from the table
  \<^verbatim>\<open>Add\<close> writes to. The query reads from a table named \<^verbatim>\<open>percel\<close>: on the store that
  holds parcel 1 of client 7, \<^verbatim>\<open>GetByClient(7)\<close> returns no parcel and the error of the
  backend.
\<close>

theorem GetByClient_reads_other_table:
  "ParcelStore_GetByClient (one_parcel_store ParcelStatusRegistered ''A'') 7 =
     ([], Some (ErrNoSuchTable ''percel''))"
  by (simp add: GetByClient_eq one_parcel_store_def)

text \<open>
  Claim C7: \<^verbatim>\<open>Get\<close> returns the stored record whose number matches. The query selects
  on a column named \<^verbatim>\<open>id\<close>: on the store that holds parcel 1, \<^verbatim>\<open>Get(1)\<close> returns the zero
  value and the error of the backend.
\<close>

theorem Get_stored_parcel_fails:
  "ParcelStore_Get (one_parcel_store ParcelStatusRegistered ''A'') 1 =
     (zeroParcel, Some (ErrNoSuchColumn ''id''))"
  by (simp add: Get_eq one_parcel_store_def)

section \<open>NextStatus\<close>

text \<open>
  Claim C4: for a number with no row in the store, \<^verbatim>\<open>NextStatus\<close> returns no error and
  leaves the store as it is. \<^verbatim>\<open>NextStatus\<close> returns the error of \<^verbatim>\<open>Get\<close>: on the store that
  holds only parcel 1, \<^verbatim>\<open>NextStatus(2)\<close> leaves the store as it is and returns the error
  of the backend.
\<close>

theorem NextStatus_absent_parcel_fails:
  "ParcelService_NextStatus (one_parcel_store ParcelStatusRegistered ''A'') 2 =
     (one_parcel_store ParcelStatusRegistered ''A'', Some (ErrNoSuchColumn ''id''))"
  by (simp add: NextStatus_eq one_parcel_store_def)

text \<open>
  Claim C5: one call of \<^verbatim>\<open>NextStatus\<close> moves a stored parcel from \<^verbatim>\<open>registered\<close> to
  \<^verbatim>\<open>sent\<close>. \<^verbatim>\<open>NextStatus\<close> returns the error of \<^verbatim>\<open>Get\<close> before it reaches \<^verbatim>\<open>SetStatus\<close>: on
  the store that holds parcel 1 in the status \<^verbatim>\<open>registered\<close>, \<^verbatim>\<open>NextStatus(1)\<close> returns
  the error of the backend and the status is still \<^verbatim>\<open>registered\<close>.
\<close>

theorem NextStatus_registered_parcel_fails:
  "ParcelService_NextStatus (one_parcel_store ParcelStatusRegistered ''A'') 1 =
     (one_parcel_store ParcelStatusRegistered ''A'', Some (ErrNoSuchColumn ''id''))"
  by (simp add: NextStatus_eq one_parcel_store_def)

section \<open>The status over a sequence of calls\<close>

lemma perform_all_registered:
  "all_registered s \<Longrightarrow> all_registered (perform s c)"
proof (cases c)
  case (Register now client address)
  then show "all_registered s \<Longrightarrow> all_registered (perform s c)"
    by (simp add: Register_eq all_registered_def)
next
  case (NextStatus number)
  then show "all_registered s \<Longrightarrow> all_registered (perform s c)"
    by (simp add: NextStatus_eq)
next
  case (ChangeAddress number address)
  then show "all_registered s \<Longrightarrow> all_registered (perform s c)"
    by (auto simp add: ParcelService_ChangeAddress_def SetAddress_eq all_registered_def
          list_all_iff)
next
  case (Delete number)
  then show "all_registered s \<Longrightarrow> all_registered (perform s c)"
    by (simp add: ParcelService_Delete_def Delete_eq)
qed

lemma step_all_registered: "all_registered s \<Longrightarrow> all_registered (step s c)"
  using perform_all_registered [of "s\<lparr>down := fst c\<rparr>" "snd c"]
  by (simp add: step_def all_registered_def)

lemma run_all_registered: "all_registered s \<Longrightarrow> all_registered (run s cs)"
  unfolding run_def
  by (induction cs arbitrary: s) (simp_all add: step_all_registered)

lemma empty_all_registered: "all_registered (empty_store l)"
  by (simp add: all_registered_def empty_store_def)

text \<open>
  Claim C6: in every store reached from the empty store by a sequence of calls of
  \<^verbatim>\<open>Register\<close>, \<^verbatim>\<open>NextStatus\<close>, \<^verbatim>\<open>ChangeAddress\<close> and \<^verbatim>\<open>Delete\<close>, with the connection up
  or down at each call, every parcel has one of the three statuses; and one more call
  leaves the status of every parcel where it was or moves it one place along
  registered, sent, delivered.
\<close>

theorem status_only_moves_forward:
  assumes "s = run (empty_store l) cs" and "s' = step s c"
  shows "list_all (\<lambda>p. valid_status (Status p)) (rows s)
       \<and> list_all (\<lambda>p. valid_status (Status p)) (rows s')
       \<and> (\<forall>p \<in> set (rows s). \<forall>p' \<in> set (rows s').
             Number p' = Number p \<longrightarrow> forward (Status p) (Status p'))"
proof -
  have a: "all_registered s"
    using assms(1) run_all_registered [OF empty_all_registered] by simp
  then have b: "all_registered s'"
    using assms(2) step_all_registered by simp
  from a have 1: "list_all (\<lambda>p. valid_status (Status p)) (rows s)"
    by (simp add: all_registered_def valid_status_def list_all_iff)
  from b have 2: "list_all (\<lambda>p. valid_status (Status p)) (rows s')"
    by (simp add: all_registered_def valid_status_def list_all_iff)
  from a b have 3: "\<forall>p \<in> set (rows s). \<forall>p' \<in> set (rows s').
             Number p' = Number p \<longrightarrow> forward (Status p) (Status p')"
    by (simp add: all_registered_def forward_def list_all_iff)
  from 1 2 3 show ?thesis by simp
qed

text \<open>
  The store after \<^verbatim>\<open>Register(7, "A")\<close> on the empty store, and one call of
  \<^verbatim>\<open>NextStatus(1)\<close> on it.
\<close>

theorem status_only_moves_forward_witness:
  "run (empty_store True) [(False, Register ''2024-05-01T10:00:00Z'' 7 ''A'')] =
     one_parcel_store ParcelStatusRegistered ''A''
   \<and> step (one_parcel_store ParcelStatusRegistered ''A'') (False, NextStatus 1) =
     one_parcel_store ParcelStatusRegistered ''A''
   \<and> valid_status (Status (one_parcel ParcelStatusRegistered ''A''))
   \<and> forward (Status (one_parcel ParcelStatusRegistered ''A''))
        (Status (one_parcel ParcelStatusRegistered ''A''))"
  using status_only_moves_forward
    [of "one_parcel_store ParcelStatusRegistered ''A''" True
        "[(False, Register ''2024-05-01T10:00:00Z'' 7 ''A'')]"
        "one_parcel_store ParcelStatusRegistered ''A''" "(False, NextStatus 1)"]
  by (simp add: run_def step_def empty_store_def Register_eq NextStatus_eq
        one_parcel_store_def one_parcel_def)

section \<open>Add and Register\<close>

text \<open>
  Claim C8: for a record behind a non-nil pointer, an \<^verbatim>\<open>Add\<close> that returns no error has
  appended one row with the client, status, address and creation time of the record
  under the generated identifier, and the record behind the pointer differs from the one
  passed in the field \<^verbatim>\<open>Number\<close> only, which holds that identifier; an \<^verbatim>\<open>Add\<close> that
  returns an error leaves the record behind the pointer as it was.
\<close>

theorem Add_sets_only_Number:
  assumes "ParcelStore_Add s (Some q) = (s', p', err)"
  shows "(err = None \<longrightarrow>
            rows s' = rows s @ [q\<lparr>Number := lastid s + 1\<rparr>]
          \<and> p' = Some (q\<lparr>Number := lastid s + 1\<rparr>))
       \<and> (err \<noteq> None \<longrightarrow> p' = Some q)"
  using assms by (auto simp add: Add_Some_eq split: if_splits)

text \<open>
  \<^verbatim>\<open>Add\<close> on the empty store succeeds and sets \<^verbatim>\<open>Number\<close> to 1; with the connection down
  it fails and the record is as it was.
\<close>

theorem Add_sets_only_Number_witness:
  "ParcelStore_Add (empty_store True)
     (Some (one_parcel ParcelStatusRegistered ''A''\<lparr>Number := 0\<rparr>)) =
     (one_parcel_store ParcelStatusRegistered ''A'',
      Some (one_parcel ParcelStatusRegistered ''A''), None)
   \<and> rows (one_parcel_store ParcelStatusRegistered ''A'') =
       [one_parcel ParcelStatusRegistered ''A'']
   \<and> ParcelStore_Add ((empty_store True)\<lparr>down := True\<rparr>)
        (Some (one_parcel ParcelStatusRegistered ''A''\<lparr>Number := 0\<rparr>)) =
     ((empty_store True)\<lparr>down := True\<rparr>,
      Some (one_parcel ParcelStatusRegistered ''A''\<lparr>Number := 0\<rparr>), Some ErrConnection)"
  using Add_sets_only_Number
    [of "empty_store True" "one_parcel ParcelStatusRegistered ''A''\<lparr>Number := 0\<rparr>"
        "one_parcel_store ParcelStatusRegistered ''A''"
        "Some (one_parcel ParcelStatusRegistered ''A'')" None]
    Add_sets_only_Number
    [of "(empty_store True)\<lparr>down := True\<rparr>"
        "one_parcel ParcelStatusRegistered ''A''\<lparr>Number := 0\<rparr>"
        "(empty_store True)\<lparr>down := True\<rparr>"
        "Some (one_parcel ParcelStatusRegistered ''A''\<lparr>Number := 0\<rparr>)" "Some ErrConnection"]
  by (simp add: Add_Some_eq empty_store_def one_parcel_store_def one_parcel_def)

text \<open>
  Claim C9: \<^verbatim>\<open>Add\<close> with a nil pointer returns the error it builds for that case and
  leaves the store as it is; when the insert fails in the backend, or the backend cannot
  tell the generated identifier, \<^verbatim>\<open>Add\<close> returns that very error.
\<close>

theorem Add_returns_errors:
  "ParcelStore_Add s None = (s, None, Some ErrNilPointer)
   \<and> (Exec s sql_Add [IntV (Client q), TextV (Status q), TextV (Address q), TextV (CreatedAt q)]
        = Inl e \<longrightarrow> ParcelStore_Add s (Some q) = (s, Some q, Some e))
   \<and> (Exec s sql_Add [IntV (Client q), TextV (Status q), TextV (Address q), TextV (CreatedAt q)]
        = Inr (s', res) \<and> lastInsertId res = Inl e \<longrightarrow>
          ParcelStore_Add s (Some q) = (s', Some q, Some e))"
  by (simp add: ParcelStore_Add_def)

text \<open>
  With the connection down the insert fails with the connection error, and \<^verbatim>\<open>Add\<close>
  returns it.
\<close>

theorem Add_returns_errors_witness:
  "Exec ((empty_store True)\<lparr>down := True\<rparr>) sql_Add
     [IntV 7, TextV ParcelStatusRegistered, TextV ''A'', TextV ''2024-05-01T10:00:00Z'']
     = Inl ErrConnection
   \<and> ParcelStore_Add ((empty_store True)\<lparr>down := True\<rparr>)
        (Some (one_parcel ParcelStatusRegistered ''A'')) =
     ((empty_store True)\<lparr>down := True\<rparr>, Some (one_parcel ParcelStatusRegistered ''A''),
      Some ErrConnection)
   \<and> ParcelStore_Add (empty_store True) None = (empty_store True, None, Some ErrNilPointer)"
  using Add_returns_errors
    [of "(empty_store True)\<lparr>down := True\<rparr>" "one_parcel ParcelStatusRegistered ''A''"
        ErrConnection]
    Add_returns_errors [of "empty_store True"]
  by (simp add: Exec_sql_Add empty_store_def one_parcel_def)

text \<open>
  Claim C10: when \<^verbatim>\<open>Add\<close> returns an error, \<^verbatim>\<open>Register\<close> returns the zero-valued
  \<^verbatim>\<open>Parcel\<close> with that error, and the zero value is not the record \<^verbatim>\<open>Register\<close> had built
  for the call.
\<close>

theorem Register_returns_zero_on_failure:
  assumes "ParcelStore_Add s (Some \<lparr>Number = 0, Client = client, Status = ParcelStatusRegistered,
                                     Address = address, CreatedAt = now\<rparr>) = (s', p', Some e)"
  shows "ParcelService_Register s now client address = (s', zeroParcel, Some e)
       \<and> zeroParcel \<noteq> \<lparr>Number = 0, Client = client, Status = ParcelStatusRegistered,
                         Address = address, CreatedAt = now\<rparr>"
  using assms
  by (simp add: ParcelService_Register_def zeroParcel_def ParcelStatusRegistered_def)

text \<open>\<^verbatim>\<open>Register\<close> with the connection down.\<close>

theorem Register_returns_zero_on_failure_witness:
  "ParcelStore_Add ((empty_store True)\<lparr>down := True\<rparr>)
     (Some \<lparr>Number = 0, Client = 7, Status = ParcelStatusRegistered, Address = ''A'',
            CreatedAt = ''2024-05-01T10:00:00Z''\<rparr>) =
     ((empty_store True)\<lparr>down := True\<rparr>,
      Some \<lparr>Number = 0, Client = 7, Status = ParcelStatusRegistered, Address = ''A'',
            CreatedAt = ''2024-05-01T10:00:00Z''\<rparr>, Some ErrConnection)
   \<and> ParcelService_Register ((empty_store True)\<lparr>down := True\<rparr>) ''2024-05-01T10:00:00Z'' 7 ''A'' =
     ((empty_store True)\<lparr>down := True\<rparr>, zeroParcel, Some ErrConnection)"
  using Register_returns_zero_on_failure
    [of "(empty_store True)\<lparr>down := True\<rparr>" 7 "''A''" "''2024-05-01T10:00:00Z''"
        "(empty_store True)\<lparr>down := True\<rparr>"
        "Some \<lparr>Number = 0, Client = 7, Status = ParcelStatusRegistered, Address = ''A'',
               CreatedAt = ''2024-05-01T10:00:00Z''\<rparr>" ErrConnection]
  by (simp add: Add_Some_eq empty_store_def)

end
